theory Spec2Isabelle
  imports Complex_Main "HOL-Library.Word" "HOL-Library.AList"
begin

section \<open>JavaScript strings\<close>

text \<open>
  A JavaScript string is a sequence of 16-bit code units; \<open>length\<close>, \<open>substring\<close>,
  \<open>split\<close> and the regular expressions of the source (none has the \<open>u\<close> flag) all
  count and match code units. \<open>js\<close> embeds an ASCII literal.
\<close>

type_synonym jschar = "16 word"
type_synonym jsstring = "jschar list"

definition js :: "string \<Rightarrow> jsstring" where
  "js s = map of_char s"

definition HYPHEN :: jschar where
  "HYPHEN = 45"

definition is_hyphen :: "jschar \<Rightarrow> bool" where
  "is_hyphen c \<longleftrightarrow> c = HYPHEN"

text \<open>
  The character class of \<^verbatim>\<open>/[<>:"/\\|?*]/\<close>, by code unit:
  \<open><\<close> 60, \<open>>\<close> 62, \<open>:\<close> 58, the double quote 34, \<open>/\<close> 47, the backslash 92,
  \<open>|\<close> 124, \<open>?\<close> 63, \<open>*\<close> 42.
\<close>

definition is_invalid_char :: "jschar \<Rightarrow> bool" where
  "is_invalid_char c \<longleftrightarrow> c \<in> {60, 62, 58, 34, 47, 92, 124, 63, 42}"

text \<open>
  The class \<^verbatim>\<open>\s\<close> of ECMAScript, which is also what \<open>trim\<close> removes: the white
  space and line terminator code points TAB, LF, VT, FF, CR, SPACE, U+00A0, U+1680,
  U+2000 to U+200A, U+2028, U+2029, U+202F, U+205F, U+3000 and U+FEFF.
\<close>

definition is_space :: "jschar \<Rightarrow> bool" where
  "is_space c \<longleftrightarrow>
     c \<in> {9, 10, 11, 12, 13, 32, 0xA0, 0x1680, 0x2028, 0x2029, 0x202F, 0x205F, 0x3000, 0xFEFF}
     \<or> (0x2000 \<le> c \<and> c \<le> 0x200A)"

text \<open>\<open>s.trim()\<close>.\<close>

definition trim :: "jsstring \<Rightarrow> jsstring" where
  "trim s = rev (dropWhile is_space (rev (dropWhile is_space s)))"

text \<open>
  \<open>s.replace(/C+/g, '-')\<close> for a character class \<open>C\<close>: scanning from the left, every
  maximal run of characters of the class becomes one hyphen.
\<close>

function replace_runs :: "(jschar \<Rightarrow> bool) \<Rightarrow> jsstring \<Rightarrow> jsstring" where
  "replace_runs P [] = []"
| "replace_runs P (c # cs) =
     (if P c then HYPHEN # replace_runs P (dropWhile P cs) else c # replace_runs P cs)"
  by pat_completeness auto
termination
  by (relation "measure (\<lambda>(P, s). length s)") (auto simp: less_Suc_eq_le length_dropWhile_le)

text \<open>\<open>s.replace(/[<>:"/\\|?*]/g, '-')\<close>: every character of the class becomes a hyphen.\<close>

definition replace_invalid :: "jsstring \<Rightarrow> jsstring" where
  "replace_invalid s = map (\<lambda>c. if is_invalid_char c then HYPHEN else c) s"

text \<open>
  \<open>s.replace(/^-+|-+$/g, '')\<close>: the first alternative matches the run of hyphens at the
  start, the second one matches a run of hyphens only where it reaches the end of the
  string; both are removed.
\<close>

definition strip_hyphens :: "jsstring \<Rightarrow> jsstring" where
  "strip_hyphens s = rev (dropWhile is_hyphen (rev (dropWhile is_hyphen s)))"

subsection \<open>FileHelpers.sanitizeFilename and FileHelpers.createFilmDirectoryName\<close>

definition sanitizeFilename :: "jsstring \<Rightarrow> jsstring" where
  "sanitizeFilename filename =
     take 255
       (strip_hyphens
         (replace_runs is_hyphen
           (replace_runs is_space
             (replace_invalid filename))))"

text \<open>
  The template literal \<^verbatim>\<open>${filmId}\<close> of a film id. A film id is an integer (the
  identifier the remote API assigns), of either sign since the source's type is
  \<open>number\<close>; an integer is rendered in decimal with a leading hyphen when negative
  (as \<open>Number.prototype.toString\<close> does below \<open>10^21\<close>).
\<close>

definition digit_char :: "nat \<Rightarrow> jschar" where
  "digit_char d = of_nat (48 + d)"

function digits :: "nat \<Rightarrow> jsstring" where
  "digits n = (if n < 10 then [digit_char n] else digits (n div 10) @ [digit_char (n mod 10)])"
  by pat_completeness auto
termination
  by (relation "measure id") auto

declare digits.simps [simp del]

definition number_to_string :: "int \<Rightarrow> jsstring" where
  "number_to_string i = (if i < 0 then HYPHEN # digits (nat (- i)) else digits (nat i))"

definition createFilmDirectoryName :: "int \<Rightarrow> jsstring \<Rightarrow> jsstring" where
  "createFilmDirectoryName filmId filmTitle =
     (let sanitizedTitle = sanitizeFilename filmTitle
      in number_to_string filmId @ [HYPHEN] @ sanitizedTitle)"

subsection \<open>ExportCommand.extractFilmName\<close>

text \<open>\<open>s.split(sep)\<close> for a separator of one character: never the empty list.\<close>

fun split_on :: "jschar \<Rightarrow> jsstring \<Rightarrow> jsstring list" where
  "split_on sep [] = [[]]"
| "split_on sep (c # cs) =
     (if c = sep then [] # split_on sep cs
      else (case split_on sep cs of [] \<Rightarrow> [[c]] | p # ps \<Rightarrow> (c # p) # ps))"

text \<open>\<open>parts.join(sep)\<close>.\<close>

fun join_with :: "jsstring \<Rightarrow> jsstring list \<Rightarrow> jsstring" where
  "join_with sep [] = []"
| "join_with sep [p] = p"
| "join_with sep (p # q # ps) = p @ sep @ join_with sep (q # ps)"

text \<open>
  The export command's \<open>extractFilmName\<close>: \<open>parts.slice(1).join('-')\<close> when the
  directory name has a hyphen, the name itself otherwise.
\<close>

definition extractFilmName :: "jsstring \<Rightarrow> jsstring" where
  "extractFilmName filmDir =
     (let parts = split_on HYPHEN filmDir
      in if length parts > 1 then join_with [HYPHEN] (drop 1 parts) else filmDir)"

subsection \<open>Auxiliary notions for the properties of the sanitizer\<close>

text \<open>The number that a string of decimal digits denotes.\<close>

definition digits_value :: "jsstring \<Rightarrow> nat" where
  "digits_value s = foldl (\<lambda>a c. 10 * a + (unat c - 48)) 0 s"




section \<open>JavaScript values\<close>

text \<open>
  A \<open>number\<close> is a finite value or one of \<open>NaN\<close>, \<open>Infinity\<close>, \<open>-Infinity\<close>. A finite
  value is given by the real number it denotes; rounding and the negative zero are not
  represented.
\<close>

datatype jsnum = Finite real | NaN | PosInfinity | NegInfinity

text \<open>\<open>a < b\<close> on numbers: false whenever an operand is \<open>NaN\<close>.\<close>

fun js_less :: "jsnum \<Rightarrow> jsnum \<Rightarrow> bool" where
  "js_less NaN b = False"
| "js_less a NaN = False"
| "js_less (Finite a) (Finite b) = (a < b)"
| "js_less (Finite a) PosInfinity = True"
| "js_less (Finite a) NegInfinity = False"
| "js_less PosInfinity b = False"
| "js_less NegInfinity NegInfinity = False"
| "js_less NegInfinity b = True"

text \<open>The values that \<open>JSON.parse\<close> yields and that the configuration objects hold.\<close>

datatype jsval =
    JUndefined
  | JNull
  | JBool bool
  | JNum jsnum
  | JStr jsstring
  | JArr "jsval list"
  | JObj "(jsstring \<times> jsval) list"

text \<open>
  Truthiness, as \<open>!v\<close>, \<open>v || d\<close> and \<open>v && e\<close> test it: \<open>undefined\<close>, \<open>null\<close>,
  \<open>false\<close>, \<open>0\<close>, \<open>NaN\<close> and the empty string are falsy.
\<close>

fun truthy_num :: "jsnum \<Rightarrow> bool" where
  "truthy_num (Finite r) = (r \<noteq> 0)"
| "truthy_num NaN = False"
| "truthy_num PosInfinity = True"
| "truthy_num NegInfinity = True"

fun truthy :: "jsval \<Rightarrow> bool" where
  "truthy JUndefined = False"
| "truthy JNull = False"
| "truthy (JBool b) = b"
| "truthy (JNum n) = truthy_num n"
| "truthy (JStr s) = (s \<noteq> [])"
| "truthy (JArr xs) = True"
| "truthy (JObj ps) = True"

text \<open>
  Errors are values. An \<open>APIError\<close> has its message, status code and endpoint. The
  wrapping errors of the source keep the message or the name of the operation, and the
  error they caught, from which the source builds the rest of the message.
\<close>

datatype error =
    TypeError
  | SyntaxError
  | ENOENT
  | EEXIST
  | ENOTDIR
  | EISDIR
  | HttpStatusError int
  | TransportError
  | APIError jsstring int jsstring
  | ConfigurationError jsstring error
  | FileSystemError jsstring error

text \<open>
  \<open>v.k\<close> for a key that no prototype defines (\<open>user\<close>, \<open>app\<close>, \<open>lastUpdated\<close>,
  \<open>apiKey\<close>): a \<open>TypeError\<close> on \<open>undefined\<close> and \<open>null\<close>, the own property of an object,
  \<open>undefined\<close> when it has none and on every other value.
\<close>

fun get_prop :: "jsval \<Rightarrow> jsstring \<Rightarrow> error + jsval" where
  "get_prop JUndefined k = Inl TypeError"
| "get_prop JNull k = Inl TypeError"
| "get_prop (JObj ps) k = Inr (case map_of ps k of None \<Rightarrow> JUndefined | Some v \<Rightarrow> v)"
| "get_prop v k = Inr JUndefined"

text \<open>
  The own enumerable properties that an object spread \<open>{...v}\<close> copies: those of an
  object, the indices of an array or of a string, none of any other value.
\<close>

definition index_keys :: "nat \<Rightarrow> jsstring list" where
  "index_keys n = map (\<lambda>i. number_to_string (int i)) [0..<n]"

fun own_props :: "jsval \<Rightarrow> (jsstring \<times> jsval) list" where
  "own_props (JObj ps) = ps"
| "own_props (JArr xs) = zip (index_keys (length xs)) xs"
| "own_props (JStr s) = zip (index_keys (length s)) (map (\<lambda>c. JStr [c]) s)"
| "own_props v = []"

text \<open>\<open>{...a, ...v}\<close> for the properties \<open>a\<close>: the properties of \<open>v\<close> win.\<close>

definition spread :: "(jsstring \<times> jsval) list \<Rightarrow> jsval \<Rightarrow> (jsstring \<times> jsval) list" where
  "spread a v = AList.merge a (own_props v)"

text \<open>The property \<open>k\<close> of an object given by its properties.\<close>

definition get_own :: "(jsstring \<times> jsval) list \<Rightarrow> jsstring \<Rightarrow> jsval" where
  "get_own ps k = (case map_of ps k of None \<Rightarrow> JUndefined | Some v \<Rightarrow> v)"

text \<open>
  The content of a file: text that \<open>JSON.parse\<close> accepts, given by the value it parses
  to; other text; or bytes.
\<close>

datatype content =
    JsonText jsval
  | PlainText jsstring
  | Binary "8 word list"

definition JSON_parse :: "content \<Rightarrow> error + jsval" where
  "JSON_parse c = (case c of JsonText v \<Rightarrow> Inr v | PlainText s \<Rightarrow> Inl SyntaxError
     | Binary b \<Rightarrow> Inl SyntaxError)"

section \<open>FilmService.validateSearchParams\<close>

record SearchParams =
  query :: jsstring
  page :: "jsnum option"
  includeAdult :: "bool option"
  year :: "jsnum option"
  primaryReleaseYear :: "jsnum option"

text \<open>
  \<open>currentYear\<close> is \<open>new Date().getFullYear()\<close>. The guard \<open>params.year && ...\<close> tests
  the truthiness of the year: it skips the range check for \<open>undefined\<close>, and also for
  \<open>0\<close> and \<open>NaN\<close>.
\<close>

definition validateSearchParams :: "int \<Rightarrow> SearchParams \<Rightarrow> error + unit" where
  "validateSearchParams currentYear params =
     (if query params = [] \<or> length (trim (query params)) = 0
      then Inl (APIError (js ''Search query is required'') 400 (js ''validation''))
      else if length (trim (query params)) < 2
      then Inl (APIError (js ''Search query must be at least 2 characters'') 400 (js ''validation''))
      else if (case year params of None \<Rightarrow> False
               | Some y \<Rightarrow> truthy_num y
                   \<and> (js_less y (Finite 1888) \<or> js_less (Finite (of_int (currentYear + 1))) y))
      then Inl (APIError (js ''Invalid year specified'') 400 (js ''validation''))
      else Inr ())"

text \<open>
  What the specification asks of a year: a year that is supplied lies in
  \<open>[1888, currentYear + 1]\<close>.
\<close>

definition year_in_range :: "int \<Rightarrow> jsnum \<Rightarrow> bool" where
  "year_in_range currentYear y =
     (case y of Finite r \<Rightarrow> 1888 \<le> r \<and> r \<le> of_int (currentYear + 1) | NaN \<Rightarrow> False
      | PosInfinity \<Rightarrow> False | NegInfinity \<Rightarrow> False)"

section \<open>The configuration store\<close>

text \<open>
  What the program reads from its surroundings: the two files of the configuration
  directory (absent, or present with a content), the environment variable, and the
  clock.
\<close>

record config_env =
  config_file :: "content option"
  credentials_file :: "content option"
  TMDB_API_KEY :: "jsstring option"
  now :: jsstring

record ConfigFile =
  user :: "(jsstring \<times> jsval) list"
  app :: "(jsstring \<times> jsval) list"
  lastUpdated :: jsval

definition DEFAULT_CONFIG :: "(jsstring \<times> jsval) list" where
  "DEFAULT_CONFIG =
     [(js ''tmdbApiKey'', JStr (js '''')),
      (js ''defaultOutputDir'', JStr (js ''./films'')),
      (js ''imageQuality'', JStr (js ''medium'')),
      (js ''language'', JStr (js ''en-US'')),
      (js ''includeAdult'', JBool False),
      (js ''downloadImages'', JBool True),
      (js ''maxImageSize'', JStr (js ''w500''))]"

definition DEFAULT_APP_CONFIG :: "(jsstring \<times> jsval) list" where
  "DEFAULT_APP_CONFIG =
     [(js ''version'', JStr (js ''1.0.0'')),
      (js ''configDir'', JStr (js ''~/.reel-cli'')),
      (js ''outputDir'', JStr (js ''./films'')),
      (js ''tempDir'', JStr (js ''~/.reel-cli/temp'')),
      (js ''logLevel'', JStr (js ''info''))]"

definition image_qualities :: "jsval list" where
  "image_qualities = [JStr (js ''low''), JStr (js ''medium''), JStr (js ''high'')]"

definition image_sizes :: "jsval list" where
  "image_sizes =
     [JStr (js ''w92''), JStr (js ''w154''), JStr (js ''w185''), JStr (js ''w342''),
      JStr (js ''w500''), JStr (js ''w780''), JStr (js ''original'')]"

definition createDefaultConfig :: "config_env \<Rightarrow> ConfigFile" where
  "createDefaultConfig e =
     \<lparr>user = DEFAULT_CONFIG, app = DEFAULT_APP_CONFIG, lastUpdated = JStr (now e)\<rparr>"

text \<open>
  \<open>validateAndMergeConfig\<close>. Reading \<open>config.user\<close> of \<open>null\<close> is the one step that can
  throw. The three assignments to fields of \<open>validatedConfig.user\<close> are the steps
  \<open>user1\<close>, \<open>user2\<close>, \<open>user3\<close>. \<open>includes\<close> compares a string with the strings of the
  list.
\<close>

definition validateAndMergeConfig :: "config_env \<Rightarrow> jsval \<Rightarrow> error + ConfigFile" where
  "validateAndMergeConfig e config =
     (case get_prop config (js ''user'') of Inl err \<Rightarrow> Inl err | Inr u \<Rightarrow>
      case get_prop config (js ''app'') of Inl err \<Rightarrow> Inl err | Inr a \<Rightarrow>
      case get_prop config (js ''lastUpdated'') of Inl err \<Rightarrow> Inl err | Inr l \<Rightarrow>
        let user0 = spread DEFAULT_CONFIG u;
            user1 = (if \<not> truthy (get_own user0 (js ''tmdbApiKey''))
                     then AList.update (js ''tmdbApiKey'') (JStr (js '''')) user0
                     else user0);
            user2 = (if get_own user1 (js ''imageQuality'') \<notin> set image_qualities
                     then AList.update (js ''imageQuality'') (JStr (js ''medium'')) user1
                     else user1);
            user3 = (if get_own user2 (js ''maxImageSize'') \<notin> set image_sizes
                     then AList.update (js ''maxImageSize'') (JStr (js ''w500'')) user2
                     else user2)
        in Inr \<lparr>user = user3, app = spread DEFAULT_APP_CONFIG a,
                 lastUpdated = (if truthy l then l else JStr (now e))\<rparr>)"

text \<open>
  \<open>loadConfig\<close>: the defaults when there is no file; otherwise parse and merge, and
  wrap whatever is thrown (a \<open>SyntaxError\<close> or a \<open>TypeError\<close>) in a
  \<open>ConfigurationError\<close>.
\<close>

definition loadConfig :: "config_env \<Rightarrow> error + ConfigFile" where
  "loadConfig e =
     (case config_file e of
        None \<Rightarrow> Inr (createDefaultConfig e)
      | Some configData \<Rightarrow>
          (case JSON_parse configData of
             Inl err \<Rightarrow> Inl (ConfigurationError (js ''Failed to load configuration'') err)
           | Inr config \<Rightarrow>
               (case validateAndMergeConfig e config of
                  Inl err \<Rightarrow> Inl (ConfigurationError (js ''Failed to load configuration'') err)
                | Inr validated \<Rightarrow> Inr validated)))"

text \<open>
  \<open>loadCredentials\<close>: every exception is caught and gives \<open>null\<close>.
\<close>

definition loadCredentials :: "config_env \<Rightarrow> jsval" where
  "loadCredentials e =
     (case credentials_file e of
        None \<Rightarrow> JNull
      | Some credentialsData \<Rightarrow>
          (case JSON_parse credentialsData of
             Inl err \<Rightarrow> JNull
           | Inr credentials \<Rightarrow>
               (case get_prop credentials (js ''apiKey'') of
                  Inl err \<Rightarrow> JNull
                | Inr k \<Rightarrow> (if truthy k then k else JNull))))"

text \<open>\<open>getApiKey\<close>: the key of the credentials when truthy, else \<open>process.env.TMDB_API_KEY || null\<close>.\<close>

definition getApiKey :: "config_env \<Rightarrow> jsval" where
  "getApiKey e =
     (let credentialsKey = loadCredentials e
      in if truthy credentialsKey then credentialsKey
         else (case TMDB_API_KEY e of
                 None \<Rightarrow> JNull
               | Some v \<Rightarrow> (if v \<noteq> [] then JStr v else JNull)))"

text \<open>The key that a credentials file yields, if it yields one.\<close>

definition stored_key :: "content option \<Rightarrow> jsval option" where
  "stored_key f =
     (case f of
        Some (JsonText (JObj ps)) \<Rightarrow>
          (case map_of ps (js ''apiKey'') of
             Some k \<Rightarrow> (if truthy k then Some k else None)
           | None \<Rightarrow> None)
      | _ \<Rightarrow> None)"

text \<open>
  The field \<open>user.k\<close> of a persisted configuration document; \<open>undefined\<close> when the
  document has no \<open>user\<close> or the \<open>user\<close> has no \<open>k\<close>.
\<close>

definition persisted_user_field :: "jsval \<Rightarrow> jsstring \<Rightarrow> jsval" where
  "persisted_user_field config k =
     (case get_prop config (js ''user'') of
        Inl err \<Rightarrow> JUndefined
      | Inr u \<Rightarrow> (case get_prop u k of Inl err \<Rightarrow> JUndefined | Inr v \<Rightarrow> v))"

text \<open>A configuration file that holds \<open>{"user": {"imageQuality": "ultra"}}\<close>.\<close>

definition ultra_env :: config_env where
  "ultra_env =
     \<lparr>config_file = Some (JsonText (JObj [(js ''user'', JObj [(js ''imageQuality'', JStr (js ''ultra''))])])),
      credentials_file = None, TMDB_API_KEY = None, now = js ''2024-01-01T00:00:00.000Z''\<rparr>"

section \<open>Paths\<close>

text \<open>
  POSIX paths. A path string denotes, for a process whose working directory is \<open>cwd\<close>
  (an absolute path string), the list of names from the root that is left when the
  string is split at \<open>/\<close>, empty segments and \<open>.\<close> are dropped and \<open>..\<close> removes the
  name before it. The file system reads every path string this way, so
  \<open>path.join\<close> is modelled without the normalisation that Node applies to its result:
  the normal form denotes the same list of names. Symbolic links are not modelled.
\<close>

type_synonym path = "jsstring list"

definition SLASH :: jschar where
  "SLASH = 47"

fun normalize_segments :: "jsstring list \<Rightarrow> jsstring list \<Rightarrow> path" where
  "normalize_segments acc [] = rev acc"
| "normalize_segments acc (s # ss) =
     (if s = [] \<or> s = js ''.'' then normalize_segments acc ss
      else if s = js ''..'' then normalize_segments (tl acc) ss
      else normalize_segments (s # acc) ss)"

definition is_absolute :: "jsstring \<Rightarrow> bool" where
  "is_absolute s = (case s of [] \<Rightarrow> False | c # cs \<Rightarrow> c = SLASH)"

definition segments :: "jsstring \<Rightarrow> jsstring \<Rightarrow> path" where
  "segments cwd s =
     normalize_segments [] (split_on SLASH (if is_absolute s then s else cwd @ [SLASH] @ s))"

text \<open>\<open>path.join(a, b)\<close>: the arguments that are not empty, joined by \<open>/\<close>.\<close>

definition path_join :: "jsstring \<Rightarrow> jsstring \<Rightarrow> jsstring" where
  "path_join a b = (if a = [] then b else if b = [] then a else a @ [SLASH] @ b)"




text \<open>A name that a directory entry can have.\<close>

definition valid_name :: "jsstring \<Rightarrow> bool" where
  "valid_name n \<longleftrightarrow> n \<noteq> [] \<and> n \<noteq> js ''.'' \<and> n \<noteq> js ''..'' \<and> SLASH \<notin> set n"

section \<open>The file system\<close>

text \<open>
  A tree of directories and files. The entries of a directory are kept in the order in
  which \<open>readdirSync\<close> lists them. Permissions, quotas and limits on the length of a
  name are not modelled: an operation fails only for the shape of the tree.
\<close>

datatype node = File content | Dir "(jsstring \<times> node) list"

primrec node_at :: "path \<Rightarrow> node \<Rightarrow> node option" where
  "node_at [] n = Some n"
| "node_at (x # xs) n =
     (case n of
        File c \<Rightarrow> None
      | Dir es \<Rightarrow> (case map_of es x of None \<Rightarrow> None | Some ch \<Rightarrow> node_at xs ch))"



text \<open>
  The primitives of \<open>fs\<close> on path strings. The empty string names no file.
\<close>

definition existsSync :: "jsstring \<Rightarrow> node \<Rightarrow> jsstring \<Rightarrow> bool" where
  "existsSync cwd r p \<longleftrightarrow> p \<noteq> [] \<and> node_at (segments cwd p) r \<noteq> None"

definition isDirectory :: "jsstring \<Rightarrow> node \<Rightarrow> jsstring \<Rightarrow> bool" where
  "isDirectory cwd r p =
     (case node_at (segments cwd p) r of Some (Dir es) \<Rightarrow> True | _ \<Rightarrow> False)"




definition readdirSync :: "jsstring \<Rightarrow> node \<Rightarrow> jsstring \<Rightarrow> error + jsstring list" where
  "readdirSync cwd r p =
     (if p = [] then Inl ENOENT
      else (case node_at (segments cwd p) r of
              None \<Rightarrow> Inl ENOENT
            | Some (File c) \<Rightarrow> Inl ENOTDIR
            | Some (Dir es) \<Rightarrow> Inr (map fst es)))"

subsection \<open>FileHelpers\<close>

definition fileExists :: "jsstring \<Rightarrow> node \<Rightarrow> jsstring \<Rightarrow> bool" where
  "fileExists cwd r filePath = existsSync cwd r filePath"

definition directoryExists :: "jsstring \<Rightarrow> node \<Rightarrow> jsstring \<Rightarrow> bool" where
  "directoryExists cwd r dirPath \<longleftrightarrow> existsSync cwd r dirPath \<and> isDirectory cwd r dirPath"


definition getDirectoryContents :: "jsstring \<Rightarrow> node \<Rightarrow> jsstring \<Rightarrow> error + jsstring list" where
  "getDirectoryContents cwd r dirPath =
     (if \<not> directoryExists cwd r dirPath then Inr []
      else (case readdirSync cwd r dirPath of
              Inl err \<Rightarrow> Inl (FileSystemError (js ''readdir'') err)
            | Inr names \<Rightarrow> Inr names))"

section \<open>JSON\<close>


section \<open>Films\<close>

text \<open>
  The interfaces of \<open>types/film.ts\<close>. The fields \<open>id\<close> and \<open>name\<close>, which several
  interfaces share, carry the name of their interface. An optional field is \<open>None\<close> when
  it is absent or \<open>undefined\<close>.
\<close>

record Genre =
  genre_id :: jsnum
  genre_name :: jsstring

record ProductionCompany =
  company_id :: jsnum
  company_name :: jsstring
  logoPath :: "jsstring option"
  originCountry :: jsstring

record ProductionCountry =
  iso31661 :: jsstring
  country_name :: jsstring

record SpokenLanguage =
  englishName :: jsstring
  iso6391 :: jsstring
  language_name :: jsstring

record Film =
  film_id :: int
  title :: jsstring
  originalTitle :: jsstring
  overview :: jsstring
  releaseDate :: jsstring
  posterPath :: "jsstring option"
  backdropPath :: "jsstring option"
  genres :: "Genre list"
  runtime :: jsnum
  voteAverage :: jsnum
  voteCount :: jsnum
  popularity :: jsnum
  status :: jsstring
  tagline :: jsstring
  budget :: jsnum
  revenue :: jsnum
  productionCompanies :: "ProductionCompany list"
  productionCountries :: "ProductionCountry list"
  spokenLanguages :: "SpokenLanguage list"
  adult :: bool
  video :: bool
  originalLanguage :: jsstring
  imdbId :: "jsstring option"
  homepage :: "jsstring option"









section \<open>The storage service\<close>

text \<open>
  The surroundings of the storage service: the configuration store, the working
  directory, the file system, how the image server answers a URL, the size that
  \<open>statSync\<close> reports for a node, and the text of \<open>generateMetadataText\<close>, which is
  written and never read back.
\<close>

datatype http_result = Response int "8 word list" | NoResponse

record world =
  conf :: config_env
  workdir :: jsstring
  tree :: node
  http_get :: "jsstring \<Rightarrow> http_result"
  stat_size :: "node \<Rightarrow> nat"
  generateMetadataText :: "Film \<Rightarrow> jsstring"

text \<open>\<open>outputDir || config.user.defaultOutputDir\<close>; \<open>None\<close> is an argument left out.\<close>

definition baseOutputDir :: "jsstring option \<Rightarrow> ConfigFile \<Rightarrow> jsval" where
  "baseOutputDir outputDir config =
     (case outputDir of
        Some d \<Rightarrow> (if d \<noteq> [] then JStr d else get_own (user config) (js ''defaultOutputDir''))
      | None \<Rightarrow> get_own (user config) (js ''defaultOutputDir''))"



definition getFileSize :: "world \<Rightarrow> jsstring \<Rightarrow> error + nat" where
  "getFileSize w filePath =
     (if filePath = [] then Inl (FileSystemError (js ''stat'') ENOENT)
      else (case node_at (segments (workdir w) filePath) (tree w) of
              None \<Rightarrow> Inl (FileSystemError (js ''stat'') ENOENT)
            | Some n \<Rightarrow> Inr (stat_size w n)))"

subsection \<open>Image downloads\<close>





subsection \<open>StorageService.saveFilm\<close>


subsection \<open>StorageService.getSavedFilm\<close>


subsection \<open>StorageService.listSavedFilms\<close>

text \<open>
  \<open>fs.existsSync\<close> answers \<open>false\<close> for a base directory that is not a string, so the
  listing is then empty.
\<close>

definition isSavedFilm :: "world \<Rightarrow> jsstring \<Rightarrow> jsstring \<Rightarrow> bool" where
  "isSavedFilm w base item =
     (let itemPath = path_join base item
      in directoryExists (workdir w) (tree w) itemPath
         \<and> fileExists (workdir w) (tree w) (path_join itemPath (js ''data.json'')))"

definition listSavedFilms :: "world \<Rightarrow> jsstring option \<Rightarrow> error + jsstring list" where
  "listSavedFilms w outputDir =
     (case loadConfig (conf w) of
        Inl err \<Rightarrow> Inl (FileSystemError (js ''list'') err)
      | Inr config \<Rightarrow>
          (case baseOutputDir outputDir config of
             JStr base \<Rightarrow>
               (if \<not> directoryExists (workdir w) (tree w) base then Inr []
                else (case getDirectoryContents (workdir w) (tree w) base of
                        Inl err \<Rightarrow> Inl (FileSystemError (js ''list'') err)
                      | Inr contents \<Rightarrow> Inr (filter (isSavedFilm w base) contents)))
           | other \<Rightarrow> Inr []))"

subsection \<open>StorageService.getStorageStats\<close>

record StorageStats =
  totalFilms :: nat
  totalSize :: nat
  averageSize :: real

text \<open>The inner loop: the sizes of the entries of one film directory.\<close>

primrec addFileSizes :: "world \<Rightarrow> jsstring \<Rightarrow> jsstring list \<Rightarrow> nat \<Rightarrow> error + nat" where
  "addFileSizes w fullPath [] bytes = Inr bytes"
| "addFileSizes w fullPath (file # files) bytes =
     (let filePath = path_join fullPath file
      in if fileExists (workdir w) (tree w) filePath
         then (case getFileSize w filePath of
                 Inl err \<Rightarrow> Inl err
               | Inr s \<Rightarrow> addFileSizes w fullPath files (bytes + s))
         else addFileSizes w fullPath files bytes)"

text \<open>The outer loop, over the film directories.\<close>

primrec addFilmSizes :: "world \<Rightarrow> jsstring \<Rightarrow> jsstring list \<Rightarrow> nat \<Rightarrow> error + nat" where
  "addFilmSizes w base [] bytes = Inr bytes"
| "addFilmSizes w base (filmDir # filmDirs) bytes =
     (let fullPath = path_join base filmDir
      in case getDirectoryContents (workdir w) (tree w) fullPath of
           Inl err \<Rightarrow> Inl err
         | Inr contents \<Rightarrow>
             (case addFileSizes w fullPath contents bytes of
                Inl err \<Rightarrow> Inl err
              | Inr bytes' \<Rightarrow> addFilmSizes w base filmDirs bytes'))"

definition getStorageStats :: "world \<Rightarrow> jsstring option \<Rightarrow> error + StorageStats" where
  "getStorageStats w outputDir =
     (case loadConfig (conf w) of
        Inl err \<Rightarrow> Inl (FileSystemError (js ''stats'') err)
      | Inr config \<Rightarrow>
          (case baseOutputDir outputDir config of
             JStr base \<Rightarrow>
               (if \<not> directoryExists (workdir w) (tree w) base
                then Inr \<lparr>totalFilms = 0, totalSize = 0, averageSize = 0\<rparr>
                else (case listSavedFilms w outputDir of
                        Inl err \<Rightarrow> Inl (FileSystemError (js ''stats'') err)
                      | Inr filmDirs \<Rightarrow>
                          (case addFilmSizes w base filmDirs 0 of
                             Inl err \<Rightarrow> Inl (FileSystemError (js ''stats'') err)
                           | Inr bytes \<Rightarrow>
                               Inr \<lparr>totalFilms = length filmDirs, totalSize = bytes,
                                    averageSize =
                                      (if length filmDirs > 0
                                       then real bytes / real (length filmDirs) else 0)\<rparr>)))
           | other \<Rightarrow> Inr \<lparr>totalFilms = 0, totalSize = 0, averageSize = 0\<rparr>))"

subsection \<open>What a listing should contain\<close>

text \<open>
  The directory that the base path names, if it names one: the base path is a string
  that is not empty and the file system has a directory there.
\<close>

definition base_directory :: "world \<Rightarrow> jsval \<Rightarrow> node option" where
  "base_directory w b =
     (case b of
        JStr s \<Rightarrow>
          (if s = [] then None
           else (case node_at (segments (workdir w) s) (tree w) of
                   Some (Dir es) \<Rightarrow> Some (Dir es)
                 | _ \<Rightarrow> None))
      | _ \<Rightarrow> None)"

text \<open>
  The names of the entries of a directory that are themselves directories with an entry
  named \<open>data.json\<close>, in the order of the directory.
\<close>

definition has_data_json :: "node \<Rightarrow> bool" where
  "has_data_json n = (case n of Dir es \<Rightarrow> js ''data.json'' \<in> set (map fst es) | File c \<Rightarrow> False)"

definition film_directories :: "node option \<Rightarrow> jsstring list" where
  "film_directories d =
     (case d of
        Some (Dir es) \<Rightarrow>
          filter (\<lambda>name. case map_of es name of Some n \<Rightarrow> has_data_json n | None \<Rightarrow> False)
            (map fst es)
      | _ \<Rightarrow> [])"

text \<open>The entries of a directory have names that a file system allows.\<close>

definition names_valid :: "node option \<Rightarrow> bool" where
  "names_valid d = (case d of Some (Dir es) \<Rightarrow> list_all valid_name (map fst es) | _ \<Rightarrow> True)"

subsection \<open>Saving and then reading back\<close>


section \<open>Concrete surroundings\<close>

text \<open>No configuration file, and a configuration file that is not JSON.\<close>

definition default_conf :: config_env where
  "default_conf =
     \<lparr>config_file = None, credentials_file = None, TMDB_API_KEY = None,
      now = js ''2024-01-01T00:00:00.000Z''\<rparr>"

definition corrupt_conf :: config_env where
  "corrupt_conf =
     \<lparr>config_file = Some (PlainText (js ''{'')), credentials_file = None, TMDB_API_KEY = None,
      now = js ''2024-01-01T00:00:00.000Z''\<rparr>"

text \<open>
  A world whose working directory is \<open>/home\<close> and whose image server never answers.
\<close>

definition world_of :: "config_env \<Rightarrow> node \<Rightarrow> world" where
  "world_of c t =
     \<lparr>conf = c, workdir = js ''/home'', tree = t, http_get = (\<lambda>url. NoResponse),
      stat_size = (\<lambda>n. 0), generateMetadataText = (\<lambda>film. js ''Film'')\<rparr>"

definition matrix :: Film where
  "matrix =
     \<lparr>film_id = 603, title = js ''The Matrix'', originalTitle = js ''The Matrix'',
      overview = js ''A hacker learns the truth.'', releaseDate = js ''1999-03-31'',
      posterPath = Some (js ''/poster.jpg''), backdropPath = None,
      genres = [\<lparr>genre_id = Finite 28, genre_name = js ''Action''\<rparr>],
      runtime = Finite 136, voteAverage = Finite (41 / 5), voteCount = Finite 26000,
      popularity = Finite (167 / 2), status = js ''Released'', tagline = js ''Free your mind'',
      budget = Finite 63000000, revenue = Finite 463517383,
      productionCompanies = [], productionCountries = [], spokenLanguages = [],
      adult = False, video = False, originalLanguage = js ''en'',
      imdbId = Some (js ''tt0133093''), homepage = None\<rparr>"


text \<open>An empty file system.\<close>

definition empty_tree :: node where
  "empty_tree = Dir []"

text \<open>
  \<open>/home/films\<close> with a saved film, a directory without \<open>data.json\<close> and a file.
\<close>

definition library_tree :: node where
  "library_tree =
     Dir [(js ''home'', Dir [(js ''films'', Dir
       [(js ''603-The-Matrix'', Dir [(js ''data.json'', File (JsonText JNull))]),
        (js ''notes'', Dir []),
        (js ''readme.txt'', File (PlainText (js ''x'')))])])]"


section \<open>Properties of the file name functions\<close>

text \<open>The equations that evaluate the string functions on a literal.\<close>

lemmas eval_simps =
  createFilmDirectoryName_def sanitizeFilename_def replace_invalid_def js_def
  is_invalid_char_def is_space_def is_hyphen_def HYPHEN_def strip_hyphens_def
  number_to_string_def digits.simps digit_char_def extractFilmName_def

subsection \<open>Characters of a directory name, and distinct ids\<close>

lemma HYPHEN_not_invalid: "\<not> is_invalid_char HYPHEN"
  by (simp add: is_invalid_char_def HYPHEN_def)

lemma HYPHEN_not_space: "\<not> is_space HYPHEN"
  by (simp add: is_space_def HYPHEN_def)

lemma set_replace_runs: "c \<in> set (replace_runs P s) \<Longrightarrow> c = HYPHEN \<or> (c \<in> set s \<and> \<not> P c)"
proof (induction P s rule: replace_runs.induct)
  case (1 P)
  then show ?case by simp
next
  case (2 P c cs)
  then show ?case
    by (auto split: if_splits dest: set_dropWhileD)
qed

lemma set_strip_hyphens: "set (strip_hyphens s) \<subseteq> set s"
  by (auto simp: strip_hyphens_def dest!: set_dropWhileD)

lemma sanitizeFilename_chars:
  assumes "c \<in> set (sanitizeFilename s)"
  shows "\<not> is_invalid_char c \<and> \<not> is_space c"
proof -
  let ?a = "replace_invalid s"
  let ?b = "replace_runs is_space ?a"
  let ?c = "replace_runs is_hyphen ?b"
  have a: "\<not> is_invalid_char x" if "x \<in> set ?a" for x
    using that by (auto simp: replace_invalid_def HYPHEN_not_invalid split: if_splits)
  have b: "\<not> is_invalid_char x \<and> \<not> is_space x" if "x \<in> set ?b" for x
    using set_replace_runs [OF that] a HYPHEN_not_invalid HYPHEN_not_space by auto
  have c: "\<not> is_invalid_char x \<and> \<not> is_space x" if "x \<in> set ?c" for x
    using set_replace_runs [OF that] b HYPHEN_not_invalid HYPHEN_not_space by auto
  from assms have "c \<in> set (strip_hyphens ?c)"
    unfolding sanitizeFilename_def by (rule in_set_takeD)
  then have "c \<in> set ?c" using set_strip_hyphens by blast
  then show ?thesis by (rule c)
qed

lemma unat_digit_char: "d < 10 \<Longrightarrow> unat (digit_char d) = 48 + d"
  by (simp add: digit_char_def unat_of_nat del: of_nat_add)

lemma digits_range: "c \<in> set (digits n) \<Longrightarrow> 48 \<le> unat c \<and> unat c \<le> 57"
proof (induction n rule: digits.induct)
  case (1 n)
  show ?case
  proof (cases "n < 10")
    case True
    with 1(2) show ?thesis by (simp add: digits.simps [of n] unat_digit_char)
  next
    case False
    have "n mod 10 < 10" by simp
    with False 1 show ?thesis
      by (auto simp: digits.simps [of n] unat_digit_char simp del: of_nat_add)
  qed
qed

lemma digits_not_Nil: "digits n \<noteq> []"
  by (subst digits.simps) simp

lemma digits_value_digits: "digits_value (digits n) = n"
proof (induction n rule: digits.induct)
  case (1 n)
  show ?case
  proof (cases "n < 10")
    case True
    then show ?thesis by (simp add: digits.simps [of n] digits_value_def unat_digit_char)
  next
    case False
    have m: "n mod 10 < 10" by simp
    from False 1 have "digits_value (digits (n div 10)) = n div 10" by simp
    with False m show ?thesis
      by (simp add: digits.simps [of n] digits_value_def unat_digit_char)
  qed
qed

lemma digits_inj: "digits m = digits n \<Longrightarrow> m = n"
  by (metis digits_value_digits)

lemma unat_HYPHEN: "unat HYPHEN = 45"
  by (simp add: HYPHEN_def)

lemma HYPHEN_notin_digits: "HYPHEN \<notin> set (digits n)"
  using digits_range [of HYPHEN n] by (auto simp: unat_HYPHEN)

lemma hd_digits_not_HYPHEN: "hd (digits n) \<noteq> HYPHEN"
  using HYPHEN_notin_digits [of n] digits_not_Nil [of n] by (metis list.set_sel(1))

lemma number_to_string_inj: "number_to_string i = number_to_string j \<Longrightarrow> i = j"
proof -
  assume eq: "number_to_string i = number_to_string j"
  consider "i < 0" "j < 0" | "i < 0" "\<not> j < 0" | "\<not> i < 0" "j < 0" | "\<not> i < 0" "\<not> j < 0" by blast
  then show ?thesis
  proof cases
    case 1
    with eq have "nat (- i) = nat (- j)" by (auto simp: number_to_string_def dest: digits_inj)
    with 1 show ?thesis by simp
  next
    case 2
    with eq have "HYPHEN # digits (nat (- i)) = digits (nat j)" by (simp add: number_to_string_def)
    then have "hd (digits (nat j)) = HYPHEN" by (metis list.sel(1))
    then show ?thesis by (simp add: hd_digits_not_HYPHEN)
  next
    case 3
    with eq have "digits (nat i) = HYPHEN # digits (nat (- j))" by (simp add: number_to_string_def)
    then have "hd (digits (nat i)) = HYPHEN" by simp
    then show ?thesis by (simp add: hd_digits_not_HYPHEN)
  next
    case 4
    with eq have "nat i = nat j" by (auto simp: number_to_string_def dest: digits_inj)
    with 4 show ?thesis by simp
  qed
qed

lemma number_to_string_chars:
  "c \<in> set (number_to_string i) \<Longrightarrow> \<not> is_invalid_char c \<and> \<not> is_space c"
proof -
  assume "c \<in> set (number_to_string i)"
  then consider "c = HYPHEN" | n where "c \<in> set (digits n)"
    by (auto simp: number_to_string_def split: if_splits)
  then show ?thesis
  proof cases
    case 1
    then show ?thesis by (simp add: HYPHEN_not_invalid HYPHEN_not_space)
  next
    case 2
    then have r: "48 \<le> unat c \<and> unat c \<le> 57" by (rule digits_range)
    have "\<not> is_invalid_char c"
      using r by (auto simp: is_invalid_char_def)
    moreover have "\<not> is_space c"
      using r by (auto simp: is_space_def word_le_nat_alt)
    ultimately show ?thesis by simp
  qed
qed

text \<open>
  C3. Two film ids that differ give directory names that differ, whatever the title; and
  no directory name holds one of the characters \<open>< > : " / \ | ? *\<close> or a white space
  character.
\<close>

theorem createFilmDirectoryName_distinct_and_safe:
  "(id1 \<noteq> id2 \<longrightarrow> createFilmDirectoryName id1 filmTitle \<noteq> createFilmDirectoryName id2 filmTitle)
   \<and> (\<forall>c \<in> set (createFilmDirectoryName id1 filmTitle). \<not> is_invalid_char c \<and> \<not> is_space c)"
proof (intro conjI impI ballI)
  assume "id1 \<noteq> id2"
  then show "createFilmDirectoryName id1 filmTitle \<noteq> createFilmDirectoryName id2 filmTitle"
    by (auto simp: createFilmDirectoryName_def dest: number_to_string_inj)
next
  fix c assume "c \<in> set (createFilmDirectoryName id1 filmTitle)"
  then consider "c \<in> set (number_to_string id1)" | "c = HYPHEN" | "c \<in> set (sanitizeFilename filmTitle)"
    by (auto simp: createFilmDirectoryName_def)
  then show "\<not> is_invalid_char c" 
    by cases (auto simp: number_to_string_chars HYPHEN_not_invalid sanitizeFilename_chars)
next
  fix c assume "c \<in> set (createFilmDirectoryName id1 filmTitle)"
  then consider "c \<in> set (number_to_string id1)" | "c = HYPHEN" | "c \<in> set (sanitizeFilename filmTitle)"
    by (auto simp: createFilmDirectoryName_def)
  then show "\<not> is_space c" 
    by cases (auto simp: number_to_string_chars HYPHEN_not_space sanitizeFilename_chars)
qed

text \<open>
  C3 at the ids 603 and 604: the names differ, and the name of
  \<open>The: Matrix?\<close> is \<open>603-The-Matrix\<close>, with no forbidden character.
\<close>

theorem createFilmDirectoryName_distinct_and_safe_witness:
  "(603::int) \<noteq> 604
   \<and> createFilmDirectoryName 603 (js ''The Matrix'') \<noteq> createFilmDirectoryName 604 (js ''The Matrix'')
   \<and> createFilmDirectoryName 603 (js ''The: Matrix?'') = js ''603-The-Matrix''
   \<and> list_all (\<lambda>c. \<not> is_invalid_char c \<and> \<not> is_space c) (js ''603-The-Matrix'')"
  using createFilmDirectoryName_distinct_and_safe [of 603 604 "js ''The Matrix''"]
    createFilmDirectoryName_distinct_and_safe [of 603 604 "js ''The: Matrix?''"]
  by (simp add: eval_simps)

subsection \<open>Applying the sanitizer twice\<close>




















subsection \<open>Recovering the sanitized title from a directory name\<close>

lemma split_on_not_Nil: "split_on sep s \<noteq> []"
  by (induction s) (auto split: list.splits)








lemma extractFilmName_negative_id_value:
  "extractFilmName (createFilmDirectoryName (- 5) (js ''Heat'')) = js ''5-Heat''"
  by (simp add: eval_simps)

section \<open>Literals\<close>

lemma unat_of_char: "unat (of_char c :: jschar) = of_char c"
proof -
  have "(of_char c :: jschar) = of_nat (of_char c)" by (simp add: of_nat_of_char)
  moreover have "(of_char c :: nat) < 256"
    by (metis of_char_mod_256 mod_less_divisor zero_less_numeral)
  then have "(of_char c :: nat) < 65536" by linarith
  then have "unat (of_nat (of_char c) :: jschar) = of_char c"
    by (simp add: unat_of_nat)
  ultimately show ?thesis by simp
qed

lemma unat_comp_of_char: "unat \<circ> (of_char :: char \<Rightarrow> jschar) = of_char"
  by (rule ext) (simp add: unat_of_char)

lemma js_eq_iff [simp]: "js a = js b \<longleftrightarrow> a = b"
proof
  assume "js a = js b"
  then have "map unat (js a) = map unat (js b)" by simp
  then have "map (of_char :: char \<Rightarrow> nat) a = map of_char b"
    by (simp add: js_def unat_comp_of_char)
  then show "a = b"
    by (simp add: inj_map_eq_map inj_of_char)
qed simp

lemma js_Nil [simp]: "js [] = []" "js s = [] \<longleftrightarrow> s = []" "[] = js s \<longleftrightarrow> s = []"
  by (auto simp: js_def)

section \<open>Properties of the search validation\<close>

lemma trim_ab: "trim (js ''ab'') = js ''ab''" "trim (js ''a'') = js ''a''"
  by (simp_all add: trim_def js_def is_space_def)

text \<open>
  C7. The claim asks for an error whenever a supplied year lies outside
  \<open>[1888, currentYear + 1]\<close>. The year \<open>0\<close> lies outside, and the code accepts it with
  the query \<open>ab\<close>: the guard \<open>params.year && ...\<close> takes \<open>0\<close> for a year that was not
  supplied, while the client's \<open>params.year !== undefined\<close> sends it to the remote API.
\<close>

theorem validateSearchParams_accepts_year_zero:
  "validateSearchParams currentYear
     \<lparr>query = js ''ab'', page = None, includeAdult = None, year = Some (Finite 0),
      primaryReleaseYear = None\<rparr> = Inr ()
   \<and> \<not> year_in_range currentYear (Finite 0)" 
  apply (simp add: validateSearchParams_def trim_ab year_in_range_def)
  apply (simp add: js_def)
  done

text \<open>
  What the code does on every input: it raises exactly when the trimmed query has
  fewer than two characters, or the year is supplied, is neither \<open>0\<close> nor \<open>NaN\<close>, and
  lies outside the range; the error is an \<open>APIError\<close> of status 400.
\<close>

lemma validateSearchParams_raises_iff:
  "isl (validateSearchParams cy p) \<longleftrightarrow>
     (trim (query p) = [] \<or> length (trim (query p)) < 2
      \<or> (\<exists>y. year p = Some y \<and> truthy_num y \<and> \<not> year_in_range cy y))"
proof -
  have t: "query p = [] \<Longrightarrow> trim (query p) = []" by (simp add: trim_def)
  show ?thesis
  proof (cases "year p")
    case None
    with t show ?thesis by (auto simp: validateSearchParams_def)
  next
    case (Some y)
    with t show ?thesis
      by (cases y) (auto simp: validateSearchParams_def year_in_range_def)
  qed
qed

lemma validateSearchParams_status:
  "validateSearchParams cy p = Inl err \<Longrightarrow> \<exists>m. err = APIError m 400 (js ''validation'')"
  by (auto simp: validateSearchParams_def split: if_splits)

lemma validateSearchParams_a:
  "isl (validateSearchParams cy \<lparr>query = js ''a'', page = None, includeAdult = None, year = None, primaryReleaseYear = None\<rparr>)"
  "validateSearchParams cy \<lparr>query = js ''ab'', page = None, includeAdult = None, year = None, primaryReleaseYear = None\<rparr> = Inr ()"
  by (simp_all add: validateSearchParams_def trim_ab) (simp_all add: js_def)

section \<open>Properties of the configuration store\<close>

lemma get_own_update:
  "get_own (AList.update k v ps) k' = (if k' = k then v else get_own ps k')"
  by (simp add: get_own_def update_conv')

lemma get_own_spread:
  "get_own (spread a v) k = (case map_of (own_props v) k of Some x \<Rightarrow> x | None \<Rightarrow> get_own a k)"
  by (simp add: get_own_def spread_def merge_conv' map_add_def split: option.splits)

lemma index_keys_digits: "k \<in> set (index_keys n) \<Longrightarrow> c \<in> set k \<Longrightarrow> 48 \<le> unat c \<and> unat c \<le> 57"
  by (auto simp: index_keys_def number_to_string_def dest: digits_range)

lemma length_index_keys [simp]: "length (index_keys n) = n"
  by (simp add: index_keys_def)

text \<open>A key with a letter is not an index.\<close>

lemma not_index_key:
  assumes "c \<in> set k" and "57 < unat c"
  shows "k \<notin> set (index_keys n)"
  using assms index_keys_digits [of k n c] by auto

lemma map_of_own_props_letter:
  assumes "c \<in> set k" and "57 < unat c"
  shows "map_of (own_props v) k = (case v of JObj ps \<Rightarrow> map_of ps k | _ \<Rightarrow> None)"
proof (cases v)
  case (JArr xs)
  have "map_of (zip (index_keys (length xs)) xs) k = None"
    using not_index_key [OF assms] by (subst map_of_zip_is_None) simp_all
  with JArr show ?thesis by simp
next
  case (JStr s)
  have "map_of (zip (index_keys (length s)) (map (\<lambda>c. JStr [c]) s)) k = None"
    using not_index_key [OF assms] by (subst map_of_zip_is_None) simp_all
  with JStr show ?thesis by simp
qed simp_all

lemma letter_i: "(105 :: jschar) \<in> set (js ''imageQuality'')" "57 < unat (105 :: jschar)"
  by (simp_all add: js_def)

lemma get_prop_ok: "c \<noteq> JNull \<Longrightarrow> c \<noteq> JUndefined \<Longrightarrow> \<exists>v. get_prop c k = Inr v"
  by (cases c) simp_all

lemma default_quality: "get_own DEFAULT_CONFIG (js ''imageQuality'') = JStr (js ''medium'')"
  by (simp add: DEFAULT_CONFIG_def get_own_def)

lemma default_size: "get_own DEFAULT_CONFIG (js ''maxImageSize'') = JStr (js ''w500'')"
  by (simp add: DEFAULT_CONFIG_def get_own_def)

lemma medium_quality: "JStr (js ''medium'') \<in> set image_qualities"
  by (simp add: image_qualities_def)

lemma w500_size: "JStr (js ''w500'') \<in> set image_sizes"
  by (simp add: image_sizes_def)

text \<open>The image quality and size of a validated configuration.\<close>

lemma validateAndMergeConfig_fields:
  assumes "validateAndMergeConfig e c = Inr cfg" and "get_prop c (js ''user'') = Inr u"
  shows "get_own (user cfg) (js ''imageQuality'') =
           (if get_own (spread DEFAULT_CONFIG u) (js ''imageQuality'') \<in> set image_qualities
            then get_own (spread DEFAULT_CONFIG u) (js ''imageQuality'') else JStr (js ''medium''))"
    and "get_own (user cfg) (js ''maxImageSize'') =
           (if get_own (spread DEFAULT_CONFIG u) (js ''maxImageSize'') \<in> set image_sizes
            then get_own (spread DEFAULT_CONFIG u) (js ''maxImageSize'') else JStr (js ''w500''))"
proof -
  let ?q = "js ''imageQuality''" and ?m = "js ''maxImageSize''" and ?t = "js ''tmdbApiKey''"
  from assms obtain a l where a: "get_prop c (js ''app'') = Inr a"
    and l: "get_prop c (js ''lastUpdated'') = Inr l"
    by (auto simp: validateAndMergeConfig_def split: sum.splits)
  define u0 where "u0 = spread DEFAULT_CONFIG u"
  define u1 where "u1 = (if \<not> truthy (get_own u0 ?t) then AList.update ?t (JStr (js '''')) u0 else u0)"
  define u2 where "u2 = (if get_own u1 ?q \<notin> set image_qualities
    then AList.update ?q (JStr (js ''medium'')) u1 else u1)"
  define u3 where "u3 = (if get_own u2 ?m \<notin> set image_sizes
    then AList.update ?m (JStr (js ''w500'')) u2 else u2)"
  from assms a l have "user cfg = u3"
    unfolding validateAndMergeConfig_def Let_def u3_def u2_def u1_def u0_def
    by auto
  moreover have q1: "get_own u1 ?q = get_own u0 ?q" and m1: "get_own u1 ?m = get_own u0 ?m"
    by (simp_all add: u1_def get_own_update)
  moreover have q2: "get_own u2 ?q = (if get_own u1 ?q \<in> set image_qualities then get_own u1 ?q else JStr (js ''medium''))"
    and m2: "get_own u2 ?m = get_own u1 ?m"
    by (simp_all add: u2_def get_own_update)
  moreover have q3: "get_own u3 ?q = get_own u2 ?q"
    and m3: "get_own u3 ?m = (if get_own u2 ?m \<in> set image_sizes then get_own u2 ?m else JStr (js ''w500''))"
    by (simp_all add: u3_def get_own_update)
  ultimately show "get_own (user cfg) (js ''imageQuality'') =
           (if get_own (spread DEFAULT_CONFIG u) (js ''imageQuality'') \<in> set image_qualities
            then get_own (spread DEFAULT_CONFIG u) (js ''imageQuality'') else JStr (js ''medium''))"
    and "get_own (user cfg) (js ''maxImageSize'') =
           (if get_own (spread DEFAULT_CONFIG u) (js ''maxImageSize'') \<in> set image_sizes
            then get_own (spread DEFAULT_CONFIG u) (js ''maxImageSize'') else JStr (js ''w500''))"
    by (simp_all add: u0_def)
qed

lemma validateAndMergeConfig_ok:
  assumes "c \<noteq> JNull" and "c \<noteq> JUndefined"
  shows "\<exists>cfg. validateAndMergeConfig e c = Inr cfg"
proof -
  from assms obtain u a l where "get_prop c (js ''user'') = Inr u"
    "get_prop c (js ''app'') = Inr a" "get_prop c (js ''lastUpdated'') = Inr l"
    using get_prop_ok by metis
  then show ?thesis by (simp add: validateAndMergeConfig_def Let_def)
qed

lemma validateAndMergeConfig_user:
  "validateAndMergeConfig e c = Inr cfg \<Longrightarrow> \<exists>u. get_prop c (js ''user'') = Inr u"
  by (auto simp: validateAndMergeConfig_def split: sum.splits)

lemma validated_in_enumerations:
  assumes "validateAndMergeConfig e c = Inr cfg"
  shows "get_own (user cfg) (js ''imageQuality'') \<in> set image_qualities
       \<and> get_own (user cfg) (js ''maxImageSize'') \<in> set image_sizes"
proof -
  from assms obtain u where u: "get_prop c (js ''user'') = Inr u"
    using validateAndMergeConfig_user by blast
  show ?thesis
    using validateAndMergeConfig_fields [OF assms u] medium_quality w500_size by auto
qed

lemma spread_quality:
  "get_own (spread DEFAULT_CONFIG u) (js ''imageQuality'') =
     (case u of JObj ps \<Rightarrow> (case map_of ps (js ''imageQuality'') of Some x \<Rightarrow> x | None \<Rightarrow> JStr (js ''medium''))
      | _ \<Rightarrow> JStr (js ''medium''))"
  by (simp add: get_own_spread map_of_own_props_letter [OF letter_i] default_quality
      split: jsval.splits option.splits)

lemma persisted_quality:
  assumes "get_prop c (js ''user'') = Inr u"
    and "persisted_user_field c (js ''imageQuality'') \<notin> set image_qualities"
  shows "get_own (spread DEFAULT_CONFIG u) (js ''imageQuality'') \<notin> set image_qualities
       \<or> get_own (spread DEFAULT_CONFIG u) (js ''imageQuality'') = JStr (js ''medium'')"
  using assms
  by (cases u) (auto simp: spread_quality persisted_user_field_def split: option.splits)

text \<open>
  C2. When the configuration file holds a JSON document other than \<open>null\<close>,
  \<open>loadConfig\<close> succeeds, whatever the fields of \<open>user\<close> are or lack, and an image
  quality outside the enumeration comes back as \<open>medium\<close>. Whenever \<open>loadConfig\<close>
  returns a configuration (also the default one), its image quality and its maximal
  image size are values of their enumerations.
\<close>

theorem loadConfig_image_quality:
  "(config_file e = Some (JsonText c) \<longrightarrow> c \<noteq> JNull \<longrightarrow> c \<noteq> JUndefined \<longrightarrow>
      (\<exists>cfg. loadConfig e = Inr cfg
         \<and> (persisted_user_field c (js ''imageQuality'') \<notin> set image_qualities
              \<longrightarrow> get_own (user cfg) (js ''imageQuality'') = JStr (js ''medium''))))
   \<and> (\<forall>cfg. loadConfig e = Inr cfg \<longrightarrow>
         get_own (user cfg) (js ''imageQuality'') \<in> set image_qualities
       \<and> get_own (user cfg) (js ''maxImageSize'') \<in> set image_sizes)"
proof (rule conjI; intro impI allI)
  assume f: "config_file e = Some (JsonText c)" and n: "c \<noteq> JNull" "c \<noteq> JUndefined"
  from n obtain cfg where v: "validateAndMergeConfig e c = Inr cfg"
    using validateAndMergeConfig_ok by blast
  then obtain u where u: "get_prop c (js ''user'') = Inr u"
    using validateAndMergeConfig_user by blast
  from f v have l: "loadConfig e = Inr cfg"
    by (simp add: loadConfig_def JSON_parse_def)
  have "get_own (user cfg) (js ''imageQuality'') = JStr (js ''medium'')"
    if "persisted_user_field c (js ''imageQuality'') \<notin> set image_qualities"
    using persisted_quality [OF u that] validateAndMergeConfig_fields(1) [OF v u]
    by auto
  with l show "\<exists>cfg. loadConfig e = Inr cfg
         \<and> (persisted_user_field c (js ''imageQuality'') \<notin> set image_qualities
              \<longrightarrow> get_own (user cfg) (js ''imageQuality'') = JStr (js ''medium''))"
    by blast
next
  fix cfg assume l: "loadConfig e = Inr cfg"
  show "get_own (user cfg) (js ''imageQuality'') \<in> set image_qualities
       \<and> get_own (user cfg) (js ''maxImageSize'') \<in> set image_sizes"
  proof (cases "config_file e")
    case None
    with l have "cfg = createDefaultConfig e" by (simp add: loadConfig_def)
    then show ?thesis
      by (simp add: createDefaultConfig_def default_quality default_size medium_quality w500_size)
  next
    case (Some d)
    with l obtain c where "validateAndMergeConfig e c = Inr cfg"
      by (auto simp: loadConfig_def split: sum.splits)
    then show ?thesis by (rule validated_in_enumerations)
  qed
qed

text \<open>C2 at a configuration file whose image quality is \<open>ultra\<close>.\<close>

theorem loadConfig_image_quality_witness:
  "\<exists>cfg. loadConfig ultra_env = Inr cfg
      \<and> get_own (user cfg) (js ''imageQuality'') = JStr (js ''medium'')
      \<and> get_own (user cfg) (js ''maxImageSize'') \<in> set image_sizes"
proof -
  let ?c = "JObj [(js ''user'', JObj [(js ''imageQuality'', JStr (js ''ultra''))])]"
  have 1: "config_file ultra_env = Some (JsonText ?c)" by (simp add: ultra_env_def)
  have 2: "persisted_user_field ?c (js ''imageQuality'') \<notin> set image_qualities"
    by (simp add: persisted_user_field_def image_qualities_def)
  have 3: "?c \<noteq> JNull" "?c \<noteq> JUndefined" by simp_all
  from loadConfig_image_quality [of ultra_env ?c] 1 2 3 show ?thesis by blast
qed

lemma loadCredentials_stored_key:
  "loadCredentials e = (case stored_key (credentials_file e) of Some k \<Rightarrow> k | None \<Rightarrow> JNull)"
proof (cases "credentials_file e")
  case None
  then show ?thesis by (simp add: loadCredentials_def stored_key_def)
next
  case (Some d)
  show ?thesis
  proof (cases d)
    case (JsonText v)
    with Some show ?thesis
      by (cases v) (auto simp: loadCredentials_def stored_key_def JSON_parse_def split: option.splits)
  qed (use Some in \<open>simp_all add: loadCredentials_def stored_key_def JSON_parse_def\<close>)
qed

lemma stored_key_truthy: "stored_key f = Some k \<Longrightarrow> truthy k"
  by (auto simp: stored_key_def split: option.splits content.splits jsval.splits if_splits)

text \<open>
  C5, as the code has it. \<open>getApiKey\<close> returns the key that the credentials file yields
  (the file exists, holds a JSON object, and its \<open>apiKey\<close> is truthy); otherwise the
  value of \<open>TMDB_API_KEY\<close> when the variable is set to a string that is not empty;
  otherwise \<open>null\<close>. A missing file and a file that is not JSON yield no key, and no
  case raises.
\<close>

theorem getApiKey_resolution:
  "getApiKey e =
     (case stored_key (credentials_file e) of
        Some k \<Rightarrow> k
      | None \<Rightarrow> (case TMDB_API_KEY e of
                   Some v \<Rightarrow> (if v \<noteq> [] then JStr v else JNull)
                 | None \<Rightarrow> JNull))"
  by (auto simp: getApiKey_def loadCredentials_stored_key Let_def dest: stored_key_truthy
      split: option.splits)

text \<open>
  C5 with \<open>TMDB_API_KEY=xyz\<close>: no credentials file, a corrupt one, and one
  that holds the key \<open>k1\<close>.
\<close>

theorem getApiKey_resolution_witness:
  "getApiKey \<lparr>config_file = None, credentials_file = None, TMDB_API_KEY = Some (js ''xyz''), now = js ''''\<rparr>
     = JStr (js ''xyz'')
   \<and> getApiKey \<lparr>config_file = None, credentials_file = Some (PlainText (js ''{'')), TMDB_API_KEY = Some (js ''xyz''), now = js ''''\<rparr>
     = JStr (js ''xyz'')
   \<and> getApiKey \<lparr>config_file = None,
        credentials_file = Some (JsonText (JObj [(js ''apiKey'', JStr (js ''k1''))])),
        TMDB_API_KEY = Some (js ''xyz''), now = js ''''\<rparr>
     = JStr (js ''k1'')"
  by (simp add: getApiKey_resolution stored_key_def)

text \<open>
  C5 as stated fails when the variable is set to the empty string: the claim gives its
  value, the empty string, and the code gives \<open>null\<close>.
\<close>

theorem getApiKey_empty_variable:
  "getApiKey \<lparr>config_file = None, credentials_file = None, TMDB_API_KEY = Some (js ''''), now = js ''''\<rparr>
     = JNull"
  by (simp add: getApiKey_def loadCredentials_def)

section \<open>Properties of paths\<close>

lemma split_on_append_sep:
  "split_on sep (xs @ sep # ys) = split_on sep xs @ split_on sep ys"
proof (induction xs)
  case Nil
  then show ?case by simp
next
  case (Cons x xs)
  obtain p ps where "split_on sep xs = p # ps"
    using split_on_not_Nil [of sep xs] by (cases "split_on sep xs") auto
  with Cons show ?case by simp
qed

lemma split_on_no_sep: "sep \<notin> set n \<Longrightarrow> split_on sep n = [n]"
  by (induction n) auto


lemma normalize_append:
  "normalize_segments acc (xs @ ys) = normalize_segments (rev (normalize_segments acc xs)) ys"
  by (induction xs arbitrary: acc) simp_all

lemma normalize_valid: "list_all valid_name ss \<Longrightarrow> normalize_segments acc ss = rev acc @ ss"
  by (induction ss arbitrary: acc) (auto simp: valid_name_def)

lemma normalize_empty_segment [simp]: "normalize_segments acc [[]] = rev acc"
  by simp



lemma valid_name_not_absolute: "valid_name n \<Longrightarrow> \<not> is_absolute n"
  by (cases n) (auto simp: valid_name_def is_absolute_def)

lemma is_absolute_append: "a \<noteq> [] \<Longrightarrow> is_absolute (a @ b) = is_absolute a"
  by (cases a) (simp_all add: is_absolute_def)

lemma segments_empty: "segments cwd [] = normalize_segments [] (split_on SLASH cwd)"
proof -
  have "split_on SLASH (cwd @ [SLASH] @ []) = split_on SLASH cwd @ [[]]"
    using split_on_append_sep [of SLASH cwd "[]"] by simp
  then show ?thesis
    by (simp add: segments_def is_absolute_def normalize_append del: append.simps)
qed

lemma normalize_name: "valid_name n \<Longrightarrow> normalize_segments acc [n] = rev acc @ [n]"
  using normalize_valid [of "[n]" acc] by simp

lemma segments_name:
  assumes "valid_name n"
  shows "segments cwd n = segments cwd [] @ [n]"
proof -
  have n: "split_on SLASH n = [n]" using assms by (simp add: split_on_no_sep valid_name_def)
  have "split_on SLASH (cwd @ [SLASH] @ n) = split_on SLASH cwd @ [n]"
    using split_on_append_sep [of SLASH cwd n] n by simp
  then have "segments cwd n = normalize_segments [] (split_on SLASH cwd @ [n])"
    using valid_name_not_absolute [OF assms] by (simp add: segments_def)
  also have "\<dots> = normalize_segments [] (split_on SLASH cwd) @ [n]"
    by (simp only: normalize_append normalize_name [OF assms] rev_rev_ident)
  finally show ?thesis by (simp add: segments_empty)
qed

lemma segments_snoc:
  assumes "valid_name n" and "a \<noteq> []"
  shows "segments cwd (a @ [SLASH] @ n) = segments cwd a @ [n]"
proof -
  have n: "split_on SLASH n = [n]" using assms by (simp add: split_on_no_sep valid_name_def)
  have abs: "is_absolute (a @ [SLASH] @ n) = is_absolute a"
    using assms(2) by (rule is_absolute_append)
  have 1: "split_on SLASH (x @ [SLASH] @ n) = split_on SLASH x @ [n]" for x
    using split_on_append_sep [of SLASH x n] n by simp
  have 2: "normalize_segments [] (xs @ [n]) = normalize_segments [] xs @ [n]" for xs
    by (simp only: normalize_append normalize_name [OF assms(1)] rev_rev_ident)
  show ?thesis
  proof (cases "is_absolute a")
    case True
    with abs show ?thesis by (simp only: segments_def 1 2 if_True)
  next
    case False
    have "cwd @ [SLASH] @ a @ [SLASH] @ n = (cwd @ [SLASH] @ a) @ [SLASH] @ n" by simp
    with False abs show ?thesis by (simp only: segments_def 1 2 if_False)
  qed
qed

lemma segments_path_join:
  assumes "valid_name n"
  shows "segments cwd (path_join a n) = segments cwd a @ [n]"
proof (cases "a = []")
  case True
  then show ?thesis using segments_name [OF assms] by (simp add: path_join_def)
next
  case False
  moreover from assms have "n \<noteq> []" by (simp add: valid_name_def)
  ultimately show ?thesis using segments_snoc [OF assms False] by (simp add: path_join_def)
qed

lemma path_join_not_Nil: "n \<noteq> [] \<Longrightarrow> path_join a n \<noteq> []"
  by (simp add: path_join_def)









section \<open>Properties of the file system\<close>

lemma node_at_append:
  "node_at (p @ q) r = (case node_at p r of None \<Rightarrow> None | Some n \<Rightarrow> node_at q n)"
proof (induction p arbitrary: r)
  case Nil
  then show ?case by simp
next
  case (Cons x xs)
  show ?case
  proof (cases r)
    case (File c)
    then show ?thesis by simp
  next
    case (Dir es)
    then show ?thesis using Cons by (cases "map_of es x") simp_all
  qed
qed






section \<open>Files under a directory\<close>










section \<open>Values that JSON keeps\<close>









section \<open>The name of a film directory\<close>

lemma SLASH_invalid: "is_invalid_char SLASH"
  by (simp add: is_invalid_char_def SLASH_def)

lemma valid_createFilmDirectoryName: "valid_name (createFilmDirectoryName i t)"
proof -
  let ?n = "createFilmDirectoryName i t"
  have h: "HYPHEN \<in> set ?n" by (simp add: createFilmDirectoryName_def)
  have "SLASH \<notin> set ?n"
  proof
    assume "SLASH \<in> set ?n"
    then consider "SLASH \<in> set (number_to_string i)" | "SLASH = HYPHEN"
      | "SLASH \<in> set (sanitizeFilename t)"
      by (auto simp: createFilmDirectoryName_def)
    then show False
    proof cases
      case 1
      then show ?thesis using number_to_string_chars SLASH_invalid by blast
    next
      case 2
      then show ?thesis by (simp add: SLASH_def HYPHEN_def)
    next
      case 3
      then show ?thesis using sanitizeFilename_chars SLASH_invalid by blast
    qed
  qed
  moreover have "?n \<noteq> []" using h by auto
  moreover have "?n \<noteq> js ''.''" "?n \<noteq> js ''..''"
    using h by (auto simp: js_def HYPHEN_def)
  ultimately show ?thesis by (simp add: valid_name_def)
qed

lemma valid_data_json: "valid_name (js ''data.json'')" "valid_name (js ''metadata.txt'')"
  by (simp_all add: valid_name_def) (simp_all add: js_def SLASH_def)

section \<open>Saving and reading back\<close>





section \<open>Downloads that fail\<close>





section \<open>Listing\<close>

lemma directoryExists_base:
  "directoryExists (workdir w) (tree w) s \<longleftrightarrow> (\<exists>es. base_directory w (JStr s) = Some (Dir es))"
  by (auto simp: directoryExists_def existsSync_def isDirectory_def base_directory_def
      split: option.splits node.splits)

lemma base_directory_Some:
  assumes "base_directory w b = Some d"
  obtains s es where "b = JStr s" "s \<noteq> []" "d = Dir es"
    "node_at (segments (workdir w) s) (tree w) = Some (Dir es)"
  using assms
  by (auto simp: base_directory_def split: jsval.splits if_splits option.splits node.splits)

lemma getDirectoryContents_Dir:
  assumes "s \<noteq> []" and "node_at (segments cwd s) r = Some (Dir es)"
  shows "getDirectoryContents cwd r s = Inr (map fst es)"
  using assms
  by (simp add: getDirectoryContents_def directoryExists_def existsSync_def isDirectory_def
      readdirSync_def)

lemma getDirectoryContents_total: "\<exists>names. getDirectoryContents cwd r p = Inr names"
proof (cases "directoryExists cwd r p")
  case False
  then show ?thesis by (simp add: getDirectoryContents_def)
next
  case True
  then obtain es where "p \<noteq> []" "node_at (segments cwd p) r = Some (Dir es)"
    by (auto simp: directoryExists_def existsSync_def isDirectory_def
        split: option.splits node.splits)
  then show ?thesis using getDirectoryContents_Dir by blast
qed

lemma isSavedFilm_iff:
  assumes "node_at (segments (workdir w) s) (tree w) = Some (Dir es)" and "valid_name n"
  shows "isSavedFilm w s n \<longleftrightarrow> (case map_of es n of Some ch \<Rightarrow> has_data_json ch | None \<Rightarrow> False)"
proof -
  let ?item = "path_join s n"
  let ?data = "path_join ?item (js ''data.json'')"
  have ne: "?item \<noteq> []" "?data \<noteq> []"
    using assms(2) by (simp_all add: path_join_not_Nil valid_name_def js_def)
  have si: "segments (workdir w) ?item = segments (workdir w) s @ [n]"
    using assms(2) by (rule segments_path_join)
  have sd: "segments (workdir w) ?data = segments (workdir w) s @ [n] @ [js ''data.json'']"
    using si by (simp add: segments_path_join valid_data_json)
  have ni: "node_at (segments (workdir w) ?item) (tree w) = map_of es n"
    unfolding si using assms(1) by (simp add: node_at_append split: option.splits)
  have nd: "node_at (segments (workdir w) ?data) (tree w)
      = (case map_of es n of None \<Rightarrow> None | Some ch \<Rightarrow> node_at [js ''data.json''] ch)"
    unfolding sd using assms(1) by (simp add: node_at_append split: option.splits)
  show ?thesis
  proof (cases "map_of es n")
    case None
    with ni show ?thesis
      by (simp add: isSavedFilm_def Let_def directoryExists_def existsSync_def)
  next
    case (Some ch)
    show ?thesis
    proof (cases ch)
      case (File c)
      with Some ni show ?thesis
        by (simp add: isSavedFilm_def Let_def directoryExists_def isDirectory_def has_data_json_def)
    next
      case (Dir ces)
      have "node_at [js ''data.json''] (Dir ces) \<noteq> None \<longleftrightarrow> js ''data.json'' \<in> fst ` set ces"
      proof (cases "map_of ces (js ''data.json'')")
        case None
        then have "js ''data.json'' \<notin> fst ` set ces" by (simp add: map_of_eq_None_iff)
        moreover have "node_at [js ''data.json''] (Dir ces) = None"
          using None by (simp del: map_of_eq_None_iff)
        ultimately show ?thesis by simp
      next
        case (Some x)
        then have "js ''data.json'' \<in> fst ` set ces" by (metis map_of_eq_None_iff option.distinct(1))
        with Some show ?thesis by simp
      qed
      with Some Dir ni nd ne show ?thesis
        by (simp add: isSavedFilm_def Let_def directoryExists_def isDirectory_def existsSync_def
            fileExists_def has_data_json_def)
    qed
  qed
qed

lemma listSavedFilms_base:
  assumes "loadConfig (conf w) = Inr config"
    and "names_valid (base_directory w (baseOutputDir od config))"
  shows "listSavedFilms w od = Inr (film_directories (base_directory w (baseOutputDir od config)))"
proof (cases "base_directory w (baseOutputDir od config)")
  case None
  then have "film_directories (base_directory w (baseOutputDir od config)) = []"
    by (simp add: film_directories_def)
  moreover have "listSavedFilms w od = Inr []"
  proof (cases "baseOutputDir od config")
    case (JStr s)
    with None have "\<not> directoryExists (workdir w) (tree w) s"
      by (simp add: directoryExists_base)
    with JStr assms(1) show ?thesis by (simp add: listSavedFilms_def)
  qed (use assms(1) in \<open>simp_all add: listSavedFilms_def\<close>)
  ultimately show ?thesis by simp
next
  case (Some d)
  then obtain s es where b: "baseOutputDir od config = JStr s" and s: "s \<noteq> []"
    and d: "d = Dir es" and n: "node_at (segments (workdir w) s) (tree w) = Some (Dir es)"
    by (rule base_directory_Some)
  from Some d assms(2) have v: "list_all valid_name (map fst es)" by (simp add: names_valid_def)
  have de: "directoryExists (workdir w) (tree w) s"
    using Some d b by (simp add: directoryExists_base)
  have gc: "getDirectoryContents (workdir w) (tree w) s = Inr (map fst es)"
    using s n by (rule getDirectoryContents_Dir)
  have "filter (isSavedFilm w s) (map fst es)
      = filter (\<lambda>name. case map_of es name of Some n \<Rightarrow> has_data_json n | None \<Rightarrow> False) (map fst es)"
  proof (rule filter_cong [OF refl])
    fix x assume "x \<in> set (map fst es)"
    with v have "valid_name x" by (auto simp: list_all_iff)
    with n show "isSavedFilm w s x = (case map_of es x of Some n \<Rightarrow> has_data_json n | None \<Rightarrow> False)"
      by (rule isSavedFilm_iff)
  qed
  with assms(1) b de gc Some d show ?thesis
    by (simp add: listSavedFilms_def film_directories_def)
qed


section \<open>Statistics\<close>

lemma listSavedFilms_total:
  assumes "loadConfig (conf w) = Inr config"
  shows "\<exists>names. listSavedFilms w od = Inr names"
proof (cases "baseOutputDir od config")
  case (JStr s)
  obtain c where "getDirectoryContents (workdir w) (tree w) s = Inr c"
    using getDirectoryContents_total by blast
  with JStr assms show ?thesis by (simp add: listSavedFilms_def)
qed (use assms in \<open>simp_all add: listSavedFilms_def\<close>)

lemma listSavedFilms_absent:
  assumes "loadConfig (conf w) = Inr config"
    and "base_directory w (baseOutputDir od config) = None"
  shows "listSavedFilms w od = Inr []"
proof (cases "baseOutputDir od config")
  case (JStr s)
  with assms(2) have "\<not> directoryExists (workdir w) (tree w) s"
    by (simp add: directoryExists_base)
  with JStr assms(1) show ?thesis by (simp add: listSavedFilms_def)
qed (use assms(1) in \<open>simp_all add: listSavedFilms_def\<close>)

lemma getFileSize_exists:
  "fileExists (workdir w) (tree w) p \<Longrightarrow> \<exists>s. getFileSize w p = Inr s"
  by (auto simp: fileExists_def existsSync_def getFileSize_def)

lemma addFileSizes_total: "\<exists>b. addFileSizes w fp files t = Inr b"
proof (induction files arbitrary: t)
  case Nil
  then show ?case by simp
next
  case (Cons f fs)
  show ?case
  proof (cases "fileExists (workdir w) (tree w) (path_join fp f)")
    case True
    then obtain s where "getFileSize w (path_join fp f) = Inr s"
      using getFileSize_exists by blast
    with True Cons [of "t + s"] show ?thesis by simp
  next
    case False
    with Cons [of t] show ?thesis by simp
  qed
qed

lemma addFilmSizes_total: "\<exists>b. addFilmSizes w base dirs t = Inr b"
proof (induction dirs arbitrary: t)
  case Nil
  then show ?case by simp
next
  case (Cons d ds)
  obtain c where c: "getDirectoryContents (workdir w) (tree w) (path_join base d) = Inr c"
    using getDirectoryContents_total by blast
  obtain b where b: "addFileSizes w (path_join base d) c t = Inr b"
    using addFileSizes_total by blast
  from c b Cons [of b] show ?case by simp
qed

text \<open>
  C8, as the code has it. When the configuration loads, \<open>getStorageStats\<close> returns; its
  \<open>totalFilms\<close> is the number of names that \<open>listSavedFilms\<close> returns for the same base
  directory; with no such name (in particular when the base path names no directory) it
  returns \<open>{ totalFilms: 0, totalSize: 0, averageSize: 0 }\<close>.
\<close>

theorem getStorageStats_counts:
  assumes "loadConfig (conf w) = Inr config"
  shows "\<exists>stats names. getStorageStats w outputDir = Inr stats
      \<and> listSavedFilms w outputDir = Inr names
      \<and> totalFilms stats = length names
      \<and> (names = [] \<longrightarrow> stats = \<lparr>totalFilms = 0, totalSize = 0, averageSize = 0\<rparr>)
      \<and> (base_directory w (baseOutputDir outputDir config) = None \<longrightarrow> names = [])"
proof -
  obtain names where l: "listSavedFilms w outputDir = Inr names"
    using listSavedFilms_total [OF assms] by blast
  have a: "names = []" if "base_directory w (baseOutputDir outputDir config) = None"
    using listSavedFilms_absent [OF assms that] l by simp
  show ?thesis
  proof (cases "base_directory w (baseOutputDir outputDir config)")
    case None
    have "getStorageStats w outputDir = Inr \<lparr>totalFilms = 0, totalSize = 0, averageSize = 0\<rparr>"
    proof (cases "baseOutputDir outputDir config")
      case (JStr s)
      with None have "\<not> directoryExists (workdir w) (tree w) s"
        by (simp add: directoryExists_base)
      with JStr assms show ?thesis by (simp add: getStorageStats_def)
    qed (use assms in \<open>simp_all add: getStorageStats_def\<close>)
    with l a [OF None] show ?thesis by simp
  next
    case (Some d)
    then obtain s es where b: "baseOutputDir outputDir config = JStr s"
      by (rule base_directory_Some)
    from Some b have de: "directoryExists (workdir w) (tree w) s"
      by (auto simp: directoryExists_base elim: base_directory_Some)
    obtain bytes where s: "addFilmSizes w s names 0 = Inr bytes"
      using addFilmSizes_total by blast
    have z: "bytes = 0" if "names = []" using s that by simp
    from assms b de l s have "getStorageStats w outputDir =
        Inr \<lparr>totalFilms = length names, totalSize = bytes,
             averageSize = (if length names > 0 then real bytes / real (length names) else 0)\<rparr>"
      by (simp add: getStorageStats_def)
    with l z Some show ?thesis by auto
  qed
qed

section \<open>Writing into a directory\<close>









section \<open>Evaluation in the concrete surroundings\<close>

lemma loadConfig_default: "loadConfig default_conf = Inr (createDefaultConfig default_conf)"
  by (simp add: loadConfig_def default_conf_def)

lemma loadConfig_corrupt:
  "loadConfig corrupt_conf = Inl (ConfigurationError (js ''Failed to load configuration'') SyntaxError)"
  by (simp add: loadConfig_def corrupt_conf_def JSON_parse_def)

lemma baseOutputDir_default:
  "baseOutputDir None (createDefaultConfig default_conf) = JStr (js ''./films'')"
  by (simp add: baseOutputDir_def createDefaultConfig_def DEFAULT_CONFIG_def get_own_def)

lemma world_of_simps [simp]:
  "conf (world_of c t) = c" "workdir (world_of c t) = js ''/home''" "tree (world_of c t) = t"
  by (simp_all add: world_of_def)

lemma segments_films: "segments (js ''/home'') (js ''./films'') = [js ''home'', js ''films'']"
  by (simp add: segments_def is_absolute_def js_def SLASH_def)

lemma matrix_dir: "createFilmDirectoryName (film_id matrix) (title matrix) = js ''603-The-Matrix''"
  by (simp add: matrix_def eval_simps)

lemma valid_matrix_dir: "valid_name (js ''603-The-Matrix'')"
  using valid_createFilmDirectoryName [of "film_id matrix" "title matrix"] by (simp add: matrix_dir)









section \<open>Listing: concrete\<close>

lemma base_directory_library:
  "base_directory (world_of default_conf library_tree) (JStr (js ''./films'')) =
     Some (Dir [(js ''603-The-Matrix'', Dir [(js ''data.json'', File (JsonText JNull))]),
        (js ''notes'', Dir []),
        (js ''readme.txt'', File (PlainText (js ''x'')))])"
  by (simp add: base_directory_def segments_films library_tree_def)

lemma base_directory_empty:
  "base_directory (world_of c empty_tree) (JStr (js ''./films'')) = None"
  "base_directory (world_of c empty_tree) (JStr (js ''/films'')) = None"
  by (simp_all add: base_directory_def segments_films empty_tree_def)
     (simp add: segments_def is_absolute_def js_def SLASH_def)

lemma valid_library_names: "valid_name (js ''notes'')" "valid_name (js ''readme.txt'')"
  by (simp_all add: valid_name_def) (simp_all add: js_def SLASH_def)

lemma listSavedFilms_library:
  "listSavedFilms (world_of default_conf library_tree) None = Inr [js ''603-The-Matrix'']"
proof -
  let ?w = "world_of default_conf library_tree"
  have l: "loadConfig (conf ?w) = Inr (createDefaultConfig default_conf)"
    by (simp add: loadConfig_default)
  have v: "names_valid (base_directory ?w (baseOutputDir None (createDefaultConfig default_conf)))"
    by (simp add: baseOutputDir_default base_directory_library names_valid_def
        valid_matrix_dir valid_library_names)
  from listSavedFilms_base [OF l v] show ?thesis
    by (simp add: baseOutputDir_default base_directory_library film_directories_def has_data_json_def)
qed



section \<open>Statistics: concrete\<close>

text \<open>C8 in an empty file system and at \<open>/home/films\<close> with one saved film.\<close>

theorem getStorageStats_counts_witness:
  "getStorageStats (world_of default_conf empty_tree) None
     = Inr \<lparr>totalFilms = 0, totalSize = 0, averageSize = 0\<rparr>
   \<and> (\<exists>stats. getStorageStats (world_of default_conf library_tree) None = Inr stats
         \<and> totalFilms stats = 1)"
proof -
  let ?w = "world_of default_conf library_tree" and ?e = "world_of default_conf empty_tree"
  let ?c = "createDefaultConfig default_conf"
  have l: "loadConfig (conf ?w) = Inr ?c" "loadConfig (conf ?e) = Inr ?c"
    by (simp_all add: loadConfig_default)
  from getStorageStats_counts [OF l(2), of None] obtain stats names where
    "getStorageStats ?e None = Inr stats" "listSavedFilms ?e None = Inr names"
    "names = [] \<longrightarrow> stats = \<lparr>totalFilms = 0, totalSize = 0, averageSize = 0\<rparr>"
    "base_directory ?e (baseOutputDir None ?c) = None \<longrightarrow> names = []"
    by auto
  then have 1: "getStorageStats ?e None = Inr \<lparr>totalFilms = 0, totalSize = 0, averageSize = 0\<rparr>"
    by (simp add: baseOutputDir_default base_directory_empty)
  from getStorageStats_counts [OF l(1), of None] obtain stats names where
    s: "getStorageStats ?w None = Inr stats" and "listSavedFilms ?w None = Inr names"
    and "totalFilms stats = length names"
    by auto
  then have "totalFilms stats = 1" by (auto simp: listSavedFilms_library)
  with s 1 show ?thesis by blast
qed

text \<open>
  C8 as stated fails when the configuration file is not JSON: there is no saved film,
  and \<open>getStorageStats\<close> raises instead of returning the zeros.
\<close>

theorem getStorageStats_raises:
  "base_directory (world_of corrupt_conf empty_tree) (JStr (js ''/films'')) = None
   \<and> getStorageStats (world_of corrupt_conf empty_tree) (Some (js ''/films''))
       = Inl (FileSystemError (js ''stats'')
               (ConfigurationError (js ''Failed to load configuration'') SyntaxError))"
  by (simp add: base_directory_empty getStorageStats_def loadConfig_corrupt)

section \<open>Saving: concrete\<close>




end
